theory Spec2Isabelle
  imports Main
begin

section \<open>The timeline layer components of the editor front end\<close>

text \<open>
  The source is \<^verbatim>\<open>fluster_editor/frontend/src/app/bottom_pane/timeline/layers.tsx\<close>:

  \<^verbatim>\<open>
  export interface LayerProps {
      frames: FrameData[];
      layerVisibility: boolean;
      updateLayerVisibility: (visibile: boolean) => void;
  }

  export function Layers() {
      return (<div></div>);
  }

  export function Layer({ frames, layerVisibility }: LayerProps) {
      return (
          <div>
              <div>
                  {/*label, visibility*/}
              </div>
              <div>
                  {/*render frames in layer*/}
              </div>
          </div>
      );
  }
  \<close>

  A function component is a JavaScript function from a props object to an element tree.
  JavaScript can do more than return a value: it can throw, it can write to the arrays
  and objects it was handed, and it can call the functions it was handed. The model makes
  these explicit: a component takes the store it runs in and returns either a thrown
  error or its element tree with the store it leaves behind.
\<close>

subsection \<open>The store, errors and callbacks\<close>

text \<open>
  \<open>FrameData\<close> is declared in \<^verbatim>\<open>../../types/timeline\<close>, which is not part of the
  given sources; it is the type parameter \<open>'f\<close>. A \<open>FrameData[]\<close> is a reference to a
  mutable array, so a props object holds the address of the array and the store holds
  its contents. The store also holds the log a recording callback appends to.
\<close>

type_synonym ref = nat

datatype js_error = TypeError string

record 'f world =
  heap :: "ref \<Rightarrow> 'f list option"
  calls :: "bool list"

type_synonym 'f effect = "'f world \<Rightarrow> js_error + 'f world"

text \<open>
  The interface declares \<open>updateLayerVisibility\<close> as required. A JavaScript caller can
  still leave the property out, which is \<open>None\<close> here.
\<close>

record 'f LayerProps =
  frames :: ref
  layerVisibility :: bool
  updateLayerVisibility :: "(bool \<Rightarrow> 'f effect) option"

subsection \<open>Element trees\<close>

text \<open>
  An element has a tag, the props written on it and its children. A prop value is a
  string, a boolean or an event handler.
\<close>

datatype 'f prop_value = StringProp string | BoolProp bool | HandlerProp "'f effect"

datatype 'f element =
  Element (tag: string) (props: "(string \<times> 'f prop_value) list") (children: "'f element list")

subsection \<open>The two components\<close>

text \<open>
  \<open>Layers\<close> takes no props and returns one \<open>div\<close> with no props and no children.
\<close>

definition Layers :: "'f world \<Rightarrow> js_error + ('f element \<times> 'f world)" where
  "Layers w = Inr (Element ''div'' [] [], w)"

text \<open>
  \<open>Layer\<close> reads \<open>frames\<close> and \<open>layerVisibility\<close> from its props (the destructuring
  pattern) and uses neither. A JSX expression container that holds only a comment
  contributes no child, so both inner \<open>div\<close>s are empty: the first is the place of the
  label and the visibility control, the second the place of the frames.
\<close>

definition Layer :: "'f LayerProps \<Rightarrow> 'f world \<Rightarrow> js_error + ('f element \<times> 'f world)" where
  "Layer p w =
     (let frames = frames p; layerVisibility = layerVisibility p in
      Inr (Element ''div'' []
             [Element ''div'' [] [],
              Element ''div'' [] []], w))"

subsection \<open>Reading a rendered tree\<close>

definition child_at :: "nat \<Rightarrow> 'f element \<Rightarrow> 'f element option" where
  "child_at i e = (if i < length (children e) then Some (children e ! i) else None)"

text \<open>The first child of a rendered layer: the place of the label and the visibility.\<close>

definition label_region :: "'f element \<Rightarrow> 'f element option" where
  "label_region out = child_at 0 out"

text \<open>The children of the second child of a rendered layer: the rendered frames.\<close>

definition frame_entries :: "'f element \<Rightarrow> 'f element list option" where
  "frame_entries out = map_option children (child_at 1 out)"

text \<open>Every event handler bound anywhere in a tree.\<close>

fun prop_handlers :: "(string \<times> 'f prop_value) list \<Rightarrow> 'f effect list" where
  "prop_handlers [] = []"
| "prop_handlers ((k, HandlerProp h) # ps) = h # prop_handlers ps"
| "prop_handlers (_ # ps) = prop_handlers ps"

fun handlers :: "'f element \<Rightarrow> 'f effect list" where
  "handlers (Element t ps cs) = prop_handlers ps @ concat (map handlers cs)"

subsection \<open>User events on a rendered tree\<close>

text \<open>
  A user acts on one node of the rendered tree, addressed by the child indices leading
  to it from the root. The event \<open>ev\<close> (\<open>onClick\<close>, \<open>onChange\<close>, ...) runs the handler
  bound under that name on the target and then on each ancestor up to the root. A
  handler that throws ends the dispatch with its error. A path that addresses no node
  is no event at all.
\<close>

definition handler_of :: "string \<Rightarrow> 'f element \<Rightarrow> 'f effect list" where
  "handler_of ev e = (case map_of (props e) ev of Some (HandlerProp h) \<Rightarrow> [h] | _ \<Rightarrow> [])"

fun bubble :: "string \<Rightarrow> nat list \<Rightarrow> 'f element \<Rightarrow> 'f effect list option" where
  "bubble ev [] e = Some (handler_of ev e)"
| "bubble ev (i # rest) e =
     (case child_at i e of
        None \<Rightarrow> None
      | Some c \<Rightarrow> map_option (\<lambda>hs. hs @ handler_of ev e) (bubble ev rest c))"

fun run_handlers :: "'f effect list \<Rightarrow> 'f effect" where
  "run_handlers [] w = Inr w"
| "run_handlers (h # hs) w =
     (case h w of Inl err \<Rightarrow> Inl err | Inr w' \<Rightarrow> run_handlers hs w')"

definition fire :: "string \<Rightarrow> nat list \<Rightarrow> 'f element \<Rightarrow> 'f effect" where
  "fire ev path e w = (case bubble ev path e of None \<Rightarrow> Inr w | Some hs \<Rightarrow> run_handlers hs w)"

text \<open>Rendering a layer and then acting on a node of what was rendered.\<close>

definition render_and_fire ::
  "'f LayerProps \<Rightarrow> string \<Rightarrow> nat list \<Rightarrow> 'f effect" where
  "render_and_fire p ev path w =
     (case Layer p w of Inl err \<Rightarrow> Inl err | Inr (out, w') \<Rightarrow> fire ev path out w')"

subsection \<open>Concrete inputs\<close>

text \<open>A callback that records the value it is called with, and nothing else.\<close>

definition spy :: "bool \<Rightarrow> 'f effect" where
  "spy b w = Inr (w\<lparr>calls := calls w @ [b]\<rparr>)"

definition example_world :: "nat world" where
  "example_world = \<lparr>heap = [0 \<mapsto> [10, 20, 30]], calls = []\<rparr>"

definition empty_frames_world :: "nat world" where
  "empty_frames_world = \<lparr>heap = [0 \<mapsto> []], calls = []\<rparr>"

definition example_props :: "bool \<Rightarrow> nat LayerProps" where
  "example_props v = \<lparr>frames = 0, layerVisibility = v, updateLayerVisibility = Some spy\<rparr>"

definition props_without_callback :: "bool \<Rightarrow> nat LayerProps" where
  "props_without_callback v = \<lparr>frames = 0, layerVisibility = v, updateLayerVisibility = None\<rparr>"

text \<open>
  What a visibility control would look like: a button whose click handler calls the
  callback with the negated flag.
\<close>

definition toggle_button :: "bool \<Rightarrow> (bool \<Rightarrow> 'f effect) \<Rightarrow> 'f element" where
  "toggle_button visible cb = Element ''button'' [(''onClick'', HandlerProp (cb (\<not> visible)))] []"

section \<open>Facts about the model\<close>

lemma Layer_eq: "Layer p w = Inr (Element ''div'' [] [Element ''div'' [] [], Element ''div'' [] []], w)"
  by (simp add: Layer_def)

lemma handlers_Layer_tree:
  "handlers (Element ''div'' [] [Element ''div'' [] [], Element ''div'' [] []]) = []"
  by simp

lemma prop_handlers_map_of:
  "prop_handlers ps = [] \<Longrightarrow> map_of ps ev \<noteq> Some (HandlerProp h)"
proof (induction ps)
  case Nil
  then show ?case by simp
next
  case (Cons a ps)
  obtain k v where a: "a = (k, v)" by (cases a)
  from Cons.prems a have "prop_handlers ps = [] \<and> v \<noteq> HandlerProp h"
    by (cases v) simp_all
  with Cons.IH a show ?case by auto
qed

lemma handler_of_empty: "handlers e = [] \<Longrightarrow> handler_of ev e = []"
proof (cases e)
  case (Element t ps cs)
  assume "handlers e = []"
  with Element have "prop_handlers ps = []" by simp
  then have "\<And>h. map_of ps ev \<noteq> Some (HandlerProp h)" by (rule prop_handlers_map_of)
  with Element show ?thesis
    by (auto simp: handler_of_def split: option.splits prop_value.splits)
qed

lemma child_handlers_empty:
  assumes "handlers e = []" and "child_at i e = Some c"
  shows "handlers c = []"
proof (cases e)
  case (Element t ps cs)
  with assms(2) have "c \<in> set cs"
    by (auto simp: child_at_def split: if_splits)
  moreover from Element assms(1) have "\<forall>x\<in>set cs. handlers x = []" by simp
  ultimately show ?thesis by blast
qed

lemma bubble_no_handlers:
  "handlers e = [] \<Longrightarrow> bubble ev path e = None \<or> bubble ev path e = Some []"
proof (induction path arbitrary: e)
  case Nil
  then show ?case by (simp add: handler_of_empty)
next
  case (Cons i rest)
  show ?case
  proof (cases "child_at i e")
    case None
    then show ?thesis by simp
  next
    case (Some c)
    with Cons.prems have "handlers c = []" by (rule child_handlers_empty)
    then have "bubble ev rest c = None \<or> bubble ev rest c = Some []" by (rule Cons.IH)
    with Some Cons.prems show ?thesis by (auto simp: handler_of_empty)
  qed
qed

lemma fire_no_handlers: "handlers e = [] \<Longrightarrow> fire ev path e w = Inr w"
  using bubble_no_handlers [of e ev path] by (auto simp: fire_def)

lemma render_and_fire_eq: "render_and_fire p ev path w = Inr w"
  by (simp add: render_and_fire_def Layer_eq fire_no_handlers)

text \<open>
  The event model does see a control where there is one: a click on a visibility
  button bound to the recording callback calls it once, with the negated flag.
\<close>

lemma fire_toggle_button:
  "fire ''onClick'' [] (toggle_button True spy) example_world = Inr (example_world\<lparr>calls := [False]\<rparr>)"
  by (simp add: fire_def toggle_button_def handler_of_def spy_def example_world_def)

section \<open>The claims\<close>

subsection \<open>Visibility indicator\<close>

text \<open>
  C1, as stated: the rendered output shows the \<open>visible\<close> input, true for true and
  false for false. It fails. Whatever reads an indicator off a render result reads the
  same result for both values of the flag, so no indicator can be true for the one and
  false for the other.
\<close>

theorem Layer_visibility_indicator_counterexample:
  "\<not> (\<exists>ind. ind (Layer (example_props True) example_world)
           \<and> \<not> ind (Layer (example_props False) example_world))"
  by (simp add: Layer_eq)

text \<open>
  C1, amended: for every frames sequence and every store, \<open>Layer\<close> renders the same
  output for \<open>visible = true\<close> and \<open>visible = false\<close>; the place of the label and the
  visibility in that output is an empty \<open>div\<close> with no props, so the output carries
  no visibility indicator and no input influences one.
\<close>

theorem Layer_output_ignores_visibility:
  "\<exists>out. Layer (p\<lparr>layerVisibility := True\<rparr>) w = Inr (out, w)
       \<and> Layer (p\<lparr>layerVisibility := False\<rparr>) w = Inr (out, w)
       \<and> label_region out = Some (Element ''div'' [] [])"
proof -
  let ?out = "Element ''div'' [] [Element ''div'' [] [], Element ''div'' [] []]"
  have "Layer (p\<lparr>layerVisibility := True\<rparr>) w = Inr (?out, w)"
    by (rule Layer_eq)
  moreover have "Layer (p\<lparr>layerVisibility := False\<rparr>) w = Inr (?out, w)"
    by (rule Layer_eq)
  moreover have "label_region ?out = Some (Element ''div'' [] [])"
    by (simp add: label_region_def child_at_def)
  ultimately show ?thesis by blast
qed

subsection \<open>The visibility toggle\<close>

text \<open>
  C2, as stated: one toggle action on the panel calls the supplied callback exactly
  once, with the negation of \<open>visible\<close>. It fails. With \<open>visible = true\<close> and the
  recording callback supplied, no event on any node of the rendered panel leaves the
  call log holding the single value \<open>false\<close>.
\<close>

theorem Layer_toggle_counterexample:
  "\<not> (\<exists>ev path w'. render_and_fire (example_props True) ev path example_world = Inr w'
           \<and> calls w' = [False])"
  by (simp add: render_and_fire_eq example_world_def)

text \<open>
  C2, amended: the rendered panel has no visibility toggle. With a callback supplied,
  every user event on every node of the rendered output completes without error and
  calls the callback zero times: the call log and the rest of the store are as before.
\<close>

theorem Layer_events_never_call_back:
  "updateLayerVisibility p = Some cb \<Longrightarrow>
     \<exists>w'. render_and_fire p ev path w = Inr w' \<and> calls w' = calls w \<and> w' = w"
  by (simp add: render_and_fire_eq)

theorem Layer_events_never_call_back_witness:
  "updateLayerVisibility (example_props True) = Some spy
   \<and> (\<exists>w'. render_and_fire (example_props True) ''onClick'' [0] example_world = Inr w'
          \<and> calls w' = calls example_world \<and> w' = example_world)"
proof -
  have h: "updateLayerVisibility (example_props True) = Some spy"
    by (simp add: example_props_def)
  from Layer_events_never_call_back [OF h, of "''onClick''" "[0]" example_world] h
  show ?thesis by blast
qed

subsection \<open>Determinism\<close>

text \<open>
  C3: rendering is deterministic and stateless. Two calls in a row with the same props
  give the same element tree, and so does a call in any other store: the output depends
  on no state outside the props.
\<close>

theorem Layer_deterministic_stateless:
  "\<exists>out. (\<exists>w' w''. Layer p w = Inr (out, w') \<and> Layer p w' = Inr (out, w''))
       \<and> (\<forall>w2. \<exists>w2'. Layer p w2 = Inr (out, w2'))"
proof -
  let ?out = "Element ''div'' [] [Element ''div'' [] [], Element ''div'' [] []]"
  have twice: "Layer p w = Inr (?out, w) \<and> Layer p w = Inr (?out, w)"
    by (simp add: Layer_eq)
  have anywhere: "\<forall>w2. \<exists>w2'. Layer p w2 = Inr (?out, w2')"
    by (simp add: Layer_eq)
  from twice anywhere show ?thesis by blast
qed

subsection \<open>The frames array\<close>

text \<open>
  C4: rendering leaves the frames array as the caller passed it. If the array holds the
  sequence \<open>fs\<close> before the call, it holds \<open>fs\<close> after it: same length, same order,
  same elements.
\<close>

theorem Layer_leaves_frames_unchanged:
  "heap w (frames p) = Some fs \<Longrightarrow>
     \<exists>out w'. Layer p w = Inr (out, w') \<and> heap w' (frames p) = Some fs"
  by (simp add: Layer_eq)

theorem Layer_leaves_frames_unchanged_witness:
  "heap example_world (frames (example_props False)) = Some [10, 20, 30]
   \<and> (\<exists>out w'. Layer (example_props False) example_world = Inr (out, w')
          \<and> heap w' (frames (example_props False)) = Some [10, 20, 30])"
proof -
  have h: "heap example_world (frames (example_props False)) = Some [10, 20, 30]"
    by (simp add: example_world_def example_props_def)
  from Layer_leaves_frames_unchanged [OF h] h show ?thesis by blast
qed

text \<open>
  C5: with an empty frames array and either value of the flag, rendering returns an
  output, and the output has zero frame entries.
\<close>

theorem Layer_empty_frames:
  "heap w (frames p) = Some [] \<Longrightarrow>
     \<exists>out w'. Layer p w = Inr (out, w') \<and> frame_entries out = Some []"
  by (simp add: Layer_eq frame_entries_def child_at_def)

theorem Layer_empty_frames_witness:
  "heap empty_frames_world (frames (example_props True)) = Some []
   \<and> (\<exists>out w'. Layer (example_props True) empty_frames_world = Inr (out, w')
          \<and> frame_entries out = Some [])
   \<and> heap empty_frames_world (frames (example_props False)) = Some []
   \<and> (\<exists>out w'. Layer (example_props False) empty_frames_world = Inr (out, w')
          \<and> frame_entries out = Some [])"
proof -
  have t: "heap empty_frames_world (frames (example_props True)) = Some []"
    by (simp add: empty_frames_world_def example_props_def)
  have f: "heap empty_frames_world (frames (example_props False)) = Some []"
    by (simp add: empty_frames_world_def example_props_def)
  from Layer_empty_frames [OF t] Layer_empty_frames [OF f] t f show ?thesis by blast
qed

subsection \<open>A missing callback\<close>

text \<open>
  C6: when the callback is left out, a user event on the rendered panel raises no error
  and changes nothing that is displayed. The event completes with the store as it was,
  and rendering again from there gives the result it gave before.
\<close>

theorem Layer_missing_callback_tolerated:
  "updateLayerVisibility p = None \<Longrightarrow>
     \<exists>w'. render_and_fire p ev path w = Inr w' \<and> w' = w \<and> Layer p w' = Layer p w"
  by (simp add: render_and_fire_eq)

theorem Layer_missing_callback_tolerated_witness:
  "updateLayerVisibility (props_without_callback True) = None
   \<and> (\<exists>w'. render_and_fire (props_without_callback True) ''onClick'' [0] example_world = Inr w'
          \<and> w' = example_world
          \<and> Layer (props_without_callback True) w' = Layer (props_without_callback True) example_world)"
proof -
  have h: "updateLayerVisibility (props_without_callback True) = None"
    by (simp add: props_without_callback_def)
  from Layer_missing_callback_tolerated [OF h, of "''onClick''" "[0]" example_world] h
  show ?thesis by blast
qed

subsection \<open>Totality\<close>

text \<open>
  C7: for every props object and every store, rendering returns an element tree; it
  never throws. (\<open>Layer\<close> is a \<^theory_text>\<open>definition\<close> without recursion, so it also
  terminates.)
\<close>

theorem Layer_total: "\<exists>out w'. Layer p w = Inr (out, w')"
  by (simp add: Layer_def)

subsection \<open>The layers list\<close>

text \<open>
  C8: \<open>Layers\<close> returns an empty placeholder: every call returns the same \<open>div\<close>
  with no props and no children, so with no layer entries.
\<close>

theorem Layers_empty_placeholder:
  "\<exists>out. Layers w1 = Inr (out, w1) \<and> Layers w2 = Inr (out, w2)
       \<and> tag out = ''div'' \<and> props out = [] \<and> children out = []"
  by (simp add: Layers_def)

subsection \<open>Independence of the inputs\<close>

text \<open>
  C9: the output of \<open>Layer\<close> is a constant element tree. Any two props objects, with
  frames and flags that may differ, in any two stores, give the same tree: a \<open>div\<close>
  holding two empty \<open>div\<close>s.
\<close>

theorem Layer_output_constant:
  "\<exists>out. Layer p1 w1 = Inr (out, w1) \<and> Layer p2 w2 = Inr (out, w2)
       \<and> out = Element ''div'' [] [Element ''div'' [] [], Element ''div'' [] []]"
  by (simp add: Layer_def)

text \<open>
  C10: rendering never calls the callback. For every props object the store after the
  call is the store before it, so whatever callback was supplied ran zero times; with
  the recording callback supplied the call log is as before; and the output binds no
  event handler, so it holds no control that could call the callback later.
\<close>

theorem Layer_render_never_calls_back:
  "\<exists>out w'. Layer p w = Inr (out, w') \<and> w' = w \<and> handlers out = []
       \<and> (\<exists>out2 w2. Layer (p\<lparr>updateLayerVisibility := Some spy\<rparr>) w = Inr (out2, w2)
              \<and> calls w2 = calls w)"
  by (simp add: Layer_def)

end
